theory Spec2Isabelle
  imports Complex_Main
begin

section \<open>Data model\<close>

text \<open>
  The program is one Python file, \<^verbatim>\<open>mtg-filter.py\<close>. It loads a JSON object that maps
  card names to lists of face objects, builds a list of predicates from the command
  line (\<^verbatim>\<open>CardFilter.from_args\<close>) and prints the names of the cards that have a face
  accepted by every predicate (\<^verbatim>\<open>filter\<close>, \<^verbatim>\<open>matches\<close>, \<^verbatim>\<open>match\<close>).

  Python exceptions are values of the type \<open>error\<close>; a Python expression of type
  bool that may raise has the type \<open>error + bool\<close>, with \<open>Inl\<close> for the exception.
  The program has no \<^verbatim>\<open>try\<close>, so an exception always travels to the caller.
\<close>

datatype error = TypeError | KeyError | ValueError

text \<open>
  A face is a JSON object. The program reads five of its keys:
  \<^verbatim>\<open>face['colors']\<close> and \<^verbatim>\<open>face['types']\<close> by subscription, which raises KeyError on
  a missing key, and \<^verbatim>\<open>power\<close>, \<^verbatim>\<open>toughness\<close>, \<^verbatim>\<open>convertedManaCost\<close> by
  \<^verbatim>\<open>face.get\<close>, which gives None on a missing key. A field is \<open>None\<close> when the key
  is missing; for the three optional keys \<open>None\<close> also stands for JSON null, which
  \<^verbatim>\<open>get\<close> returns as the same None.

  Colour and type lists are lists of strings. Power and toughness are strings. A
  \<open>char\<close> stands for the Unicode code point of the same number (U+0000 to U+00FF).
  The mana cost is a JSON number; it is modelled as an exact rational, which every
  integer and every finite float is (NaN and the infinities are left out).
\<close>

record face =
  colors :: "string list option"
  types :: "string list option"
  power_fld :: "string option"
  toughness :: "string option"
  convertedManaCost :: "rat option"

text \<open>
  The parsed command line (\<^verbatim>\<open>argparse\<close>'s namespace). Every option has default None.
  The four list options take zero or more words (\<^verbatim>\<open>nargs = "*"\<close>), so the empty list
  is a possible value; the six numeric options are integers (\<^verbatim>\<open>type = int\<close>).
\<close>

record args =
  colors_only :: "string list option"
  colors_all :: "string list option"
  power_min :: "int option"
  power_max :: "int option"
  tough_min :: "int option"
  tough_max :: "int option"
  types_only :: "string list option"
  types_all :: "string list option"
  cmc_min :: "int option"
  cmc_max :: "int option"

text \<open>
  A criterion is a Python function object from a face to a bool. \<open>category\<close> names
  the statement of \<^verbatim>\<open>from_args\<close> that created it (the program never reads it);
  \<open>call\<close> is what calling the function does.
\<close>

datatype category =
  Required_colors | Accepted_colors | Power_range | Toughness_range
  | Required_types | Accepted_types | Mana_cost_range

record criterion =
  category :: category
  call :: "face \<Rightarrow> error + bool"

text \<open>The object \<^verbatim>\<open>CardFilter\<close>: its one attribute is a list of criteria or None.\<close>

record cardfilter =
  criteria :: "criterion list option"

section \<open>Python's truth values and string functions\<close>

text \<open>
  \<^verbatim>\<open>if x:\<close> and \<^verbatim>\<open>x or y\<close> test the truth value of \<open>x\<close>: None, the empty list,
  the empty string and the number 0 are false, every other value of these types is
  true.
\<close>

definition truthy_list :: "'a list option \<Rightarrow> bool" where
  "truthy_list v = (case v of None \<Rightarrow> False | Some xs \<Rightarrow> xs \<noteq> [])"

definition truthy_int :: "int option \<Rightarrow> bool" where
  "truthy_int v = (case v of None \<Rightarrow> False | Some n \<Rightarrow> n \<noteq> 0)"

text \<open>\<^verbatim>\<open>x or d\<close> for an integer or None \<open>x\<close> and an integer \<open>d\<close>.\<close>

definition or_int :: "int option \<Rightarrow> int \<Rightarrow> int" where
  "or_int v d = (case v of None \<Rightarrow> d | Some n \<Rightarrow> if n \<noteq> 0 then n else d)"

text \<open>
  \<^verbatim>\<open>str.isnumeric\<close> is true of a non-empty string whose characters all have a
  Unicode numeric value. Up to U+00FF these are the ten decimal digits, the
  superscripts U+00B2, U+00B3, U+00B9 and the fractions U+00BC, U+00BD, U+00BE.
\<close>

definition is_decimal_char :: "char \<Rightarrow> bool" where
  "is_decimal_char c = (48 \<le> (of_char c :: nat) \<and> (of_char c :: nat) \<le> 57)"

definition isnumeric_char :: "char \<Rightarrow> bool" where
  "isnumeric_char c =
     (is_decimal_char c \<or> (of_char c :: nat) \<in> {178, 179, 185, 188, 189, 190})"

definition isnumeric :: "string \<Rightarrow> bool" where
  "isnumeric s = (s \<noteq> [] \<and> list_all isnumeric_char s)"

text \<open>
  \<^verbatim>\<open>int(s)\<close> on a string. The program calls it only on strings that passed
  \<^verbatim>\<open>isnumeric\<close>; on those it returns the decimal value when every character is a
  decimal digit and raises ValueError otherwise (superscripts and fractions are
  numeric but not decimal). Signs, blanks and underscores, which \<^verbatim>\<open>int\<close> also
  reads, never reach it here. The interpreter's limit on the length of a decimal
  string is not modelled.
\<close>

fun digits_value :: "int \<Rightarrow> string \<Rightarrow> int" where
  "digits_value acc [] = acc"
| "digits_value acc (c # cs) = digits_value (10 * acc + (int (of_char c) - 48)) cs"

definition py_int :: "string \<Rightarrow> error + int" where
  "py_int s =
     (if s \<noteq> [] \<and> list_all is_decimal_char s then Inr (digits_value 0 s)
      else Inl ValueError)"

section \<open>The criteria built by \<^verbatim>\<open>from_args\<close>\<close>

text \<open>
  Line 25: \<^verbatim>\<open>lambda face: set(args.colors_all) <= set(face['colors'])\<close>.
  The left operand is evaluated first; \<^verbatim>\<open>set(None)\<close> raises TypeError.
\<close>

definition lambda_colors_all :: "args \<Rightarrow> face \<Rightarrow> error + bool" where
  "lambda_colors_all a face =
     (case colors_all a of
        None \<Rightarrow> Inl TypeError
      | Some required_colors \<Rightarrow>
          (case colors face of
             None \<Rightarrow> Inl KeyError
           | Some cs \<Rightarrow> Inr (set required_colors \<subseteq> set cs)))"

text \<open>
  Lines 31 and 69: \<^verbatim>\<open>lambda face: set(face['colors']) <= accepted\<close> and
  \<^verbatim>\<open>lambda face: set(face['types']) <= accepted\<close>. Both read the local variable
  \<^verbatim>\<open>accepted\<close> of \<^verbatim>\<open>from_args\<close> when they are called, that is after \<^verbatim>\<open>from_args\<close> has
  returned: a Python closure holds the variable, not the value it had when the
  lambda was made. The functions below take the value of the variable as a
  parameter.
\<close>

definition lambda_colors_only :: "string set \<Rightarrow> face \<Rightarrow> error + bool" where
  "lambda_colors_only accepted face =
     (case colors face of
        None \<Rightarrow> Inl KeyError
      | Some cs \<Rightarrow> Inr (set cs \<subseteq> accepted))"

definition lambda_types_only :: "string set \<Rightarrow> face \<Rightarrow> error + bool" where
  "lambda_types_only accepted face =
     (case types face of
        None \<Rightarrow> Inl KeyError
      | Some ts \<Rightarrow> Inr (set ts \<subseteq> accepted))"

text \<open>Line 63: \<^verbatim>\<open>lambda face: required <= set(face['types'])\<close>.\<close>

definition lambda_types_all :: "string set \<Rightarrow> face \<Rightarrow> error + bool" where
  "lambda_types_all required face =
     (case types face of
        None \<Rightarrow> Inl KeyError
      | Some ts \<Rightarrow> Inr (required \<subseteq> set ts))"

text \<open>
  Lines 36 to 43, \<^verbatim>\<open>power_check\<close>:
  \<^verbatim>\<open>
    p = face.get('power')
    min = int(args.power_min) if args.power_min else None
    max = int(args.power_max) if args.power_max else None
    if not p or not p.isnumeric():
        return False
    else:
        return (min or 0) <= int(p) <= (max or 9999)
  \<close>
  \<^verbatim>\<open>toughness_check\<close> (lines 49 to 56) is the same text on \<^verbatim>\<open>toughness\<close>,
  \<^verbatim>\<open>tough_min\<close> and \<^verbatim>\<open>tough_max\<close>. \<open>range_check\<close> is the body they share, given
  the two option values and the field.
\<close>

definition range_check :: "int option \<Rightarrow> int option \<Rightarrow> string option \<Rightarrow> error + bool" where
  "range_check opt_min opt_max p =
     (let min_v = (if truthy_int opt_min then opt_min else None);
          max_v = (if truthy_int opt_max then opt_max else None)
      in case p of
           None \<Rightarrow> Inr False
         | Some s \<Rightarrow>
             if s = [] \<or> \<not> isnumeric s then Inr False
             else (case py_int s of
                     Inl e \<Rightarrow> Inl e
                   | Inr v \<Rightarrow> Inr (or_int min_v 0 \<le> v \<and> v \<le> or_int max_v 9999)))"

definition power_check :: "args \<Rightarrow> face \<Rightarrow> error + bool" where
  "power_check a face = range_check (power_min a) (power_max a) (power_fld face)"

definition toughness_check :: "args \<Rightarrow> face \<Rightarrow> error + bool" where
  "toughness_check a face = range_check (tough_min a) (tough_max a) (toughness face)"

text \<open>
  Lines 74 to 81, \<^verbatim>\<open>cmc_check\<close>:
  \<^verbatim>\<open>
    cmc = face.get('convertedManaCost')
    min = float(args.cmc_min) if args.cmc_min else 0
    max = float(args.cmc_max) if args.cmc_max else 9999
    if not cmc:
        return False
    else:
        return(min <= cmc <= max)
  \<close>
  \<^verbatim>\<open>float\<close> of an integer is that integer as a rational (exact up to 2 to the 53).
  \<open>float_or v d\<close> is \<^verbatim>\<open>float(v) if v else d\<close>.
  Beyond 2 to the 53 the code rounds to the nearest float, and from about 1.8e308 on
  \<^verbatim>\<open>float\<close> raises OverflowError; neither is modelled.
\<close>

definition float_or :: "int option \<Rightarrow> rat \<Rightarrow> rat" where
  "float_or v d = (case v of None \<Rightarrow> d | Some n \<Rightarrow> if n \<noteq> 0 then of_int n else d)"

definition cmc_check :: "args \<Rightarrow> face \<Rightarrow> error + bool" where
  "cmc_check a face =
     (let cmc = convertedManaCost face;
          min_v = float_or (cmc_min a) 0;
          max_v = float_or (cmc_max a) 9999
      in case cmc of
           None \<Rightarrow> Inr False
         | Some c \<Rightarrow> if c = 0 then Inr False else Inr (min_v \<le> c \<and> c \<le> max_v))"

text \<open>
  The value of the variable \<^verbatim>\<open>accepted\<close> when \<^verbatim>\<open>from_args\<close> returns. Line 30 assigns
  \<^verbatim>\<open>set(args.colors_only)\<close> to it and line 68 assigns \<^verbatim>\<open>set(args.types_only)\<close> to the
  same variable, each under its own \<^verbatim>\<open>if\<close>; the later assignment wins. When neither
  runs the variable is unbound and no closure reads it.
\<close>

definition accepted_cell :: "args \<Rightarrow> string set" where
  "accepted_cell a =
     (if truthy_list (types_only a) then set (the (types_only a))
      else if truthy_list (colors_only a) then set (the (colors_only a))
      else {})"

text \<open>
  \<^verbatim>\<open>CardFilter.__init__\<close>, line 11:
  \<^verbatim>\<open>self.criteria = criteria if criteria else None\<close>. The empty list is false.
\<close>

definition CardFilter_init :: "criterion list \<Rightarrow> cardfilter" where
  "CardFilter_init cs = \<lparr>criteria = (if cs \<noteq> [] then Some cs else None)\<rparr>"

text \<open>
  The list \<^verbatim>\<open>criteria\<close> of \<^verbatim>\<open>from_args\<close> after its seven \<^verbatim>\<open>if\<close> statements, in the
  order of the appends, and \<^verbatim>\<open>from_args\<close> itself, which hands the list to the
  constructor.
\<close>

definition build_criteria :: "args \<Rightarrow> criterion list" where
  "build_criteria a =
     (if truthy_list (colors_all a)
      then [\<lparr>category = Required_colors, call = lambda_colors_all a\<rparr>] else [])
     @ (if truthy_list (colors_only a)
        then [\<lparr>category = Accepted_colors, call = lambda_colors_only (accepted_cell a)\<rparr>] else [])
     @ (if truthy_int (power_min a) \<or> truthy_int (power_max a)
        then [\<lparr>category = Power_range, call = power_check a\<rparr>] else [])
     @ (if truthy_int (tough_min a) \<or> truthy_int (tough_max a)
        then [\<lparr>category = Toughness_range, call = toughness_check a\<rparr>] else [])
     @ (if truthy_list (types_all a)
        then [\<lparr>category = Required_types, call = lambda_types_all (set (the (types_all a)))\<rparr>] else [])
     @ (if truthy_list (types_only a)
        then [\<lparr>category = Accepted_types, call = lambda_types_only (accepted_cell a)\<rparr>] else [])
     @ (if truthy_int (cmc_min a) \<or> truthy_int (cmc_max a)
        then [\<lparr>category = Mana_cost_range, call = cmc_check a\<rparr>] else [])"

definition from_args :: "args \<Rightarrow> cardfilter" where
  "from_args a = CardFilter_init (build_criteria a)"

section \<open>The matcher\<close>

text \<open>
  \<^verbatim>\<open>match\<close>, line 103:
  \<^verbatim>\<open>return not any(not criterion(face) for criterion in self.criteria)\<close>.
  Iterating over None raises TypeError. \<^verbatim>\<open>any\<close> calls the criteria in order and
  stops at the first one whose negation is true; an exception in a criterion ends
  the call.
\<close>

fun any_not :: "criterion list \<Rightarrow> face \<Rightarrow> error + bool" where
  "any_not [] face = Inr False"
| "any_not (c # cs) face =
     (case call c face of
        Inl e \<Rightarrow> Inl e
      | Inr b \<Rightarrow> if \<not> b then Inr True else any_not cs face)"

definition match :: "cardfilter \<Rightarrow> face \<Rightarrow> error + bool" where
  "match self face =
     (case criteria self of
        None \<Rightarrow> Inl TypeError
      | Some cs \<Rightarrow> (case any_not cs face of Inl e \<Rightarrow> Inl e | Inr b \<Rightarrow> Inr (\<not> b)))"

text \<open>
  \<^verbatim>\<open>matches\<close>, lines 94 to 99: a \<^verbatim>\<open>for\<close> loop over the faces that returns True at the
  first face that matches, with an \<^verbatim>\<open>else\<close> clause that returns False when the loop
  ends.
\<close>

fun matches :: "cardfilter \<Rightarrow> face list \<Rightarrow> error + bool" where
  "matches self [] = Inr False"
| "matches self (face # faces) =
     (case match self face of
        Inl e \<Rightarrow> Inl e
      | Inr b \<Rightarrow> if b then Inr True else matches self faces)"

text \<open>
  A Python dict keeps its keys in insertion order and holds each key once. It is
  modelled as an association list with distinct keys. \<open>dict_set\<close> is the
  assignment \<^verbatim>\<open>d[k] = v\<close>: a new key goes to the end, a key already there keeps
  its place and gets the new value.
\<close>

fun dict_set :: "('k \<times> 'v) list \<Rightarrow> 'k \<Rightarrow> 'v \<Rightarrow> ('k \<times> 'v) list" where
  "dict_set [] k v = [(k, v)]"
| "dict_set ((k', v') # d) k v =
     (if k' = k then (k, v) # d else (k', v') # dict_set d k v)"

text \<open>
  \<^verbatim>\<open>filter\<close>, lines 87 to 92: the dict comprehension
  \<^verbatim>\<open>{name: faces for name, faces in card_dict.items() if self.matches(faces)}\<close>.
  \<open>filter_loop\<close> runs over the items with the dict built so far.
\<close>

fun filter_loop ::
  "cardfilter \<Rightarrow> (string \<times> face list) list \<Rightarrow> (string \<times> face list) list
   \<Rightarrow> error + (string \<times> face list) list" where
  "filter_loop self [] out = Inr out"
| "filter_loop self ((name, faces) # items) out =
     (case matches self faces of
        Inl e \<Rightarrow> Inl e
      | Inr b \<Rightarrow> filter_loop self items (if b then dict_set out name faces else out))"

definition filter_cards ::
  "cardfilter \<Rightarrow> (string \<times> face list) list \<Rightarrow> error + (string \<times> face list) list" where
  "filter_cards self card_dict = filter_loop self card_dict []"

text \<open>A call returns when it ends with a value and not with an exception.\<close>

definition returns :: "error + 'a \<Rightarrow> bool" where
  "returns r = (case r of Inl e \<Rightarrow> False | Inr v \<Rightarrow> True)"

section \<open>The matcher on a heap of objects\<close>

text \<open>
  What the matcher writes is a question about Python objects, so the three methods
  are written once more over a heap. The heap is the list of the objects allocated
  so far; a reference is an index into it, and a reference from the length of the
  list on is not allocated yet. The objects are those the matcher reaches: a face
  (a dict), a list of faces, the card dict (name to list of faces), a set of
  strings, the \<^verbatim>\<open>args\<close> namespace, a function object of \<^verbatim>\<open>from_args\<close> with its
  category and the object its free variable holds when the matcher runs
  (\<^verbatim>\<open>args\<close>, \<^verbatim>\<open>accepted\<close> or \<^verbatim>\<open>required\<close>), the list of criteria, and the
  \<^verbatim>\<open>CardFilter\<close> with its attribute \<^verbatim>\<open>criteria\<close> (a reference or None).

  Strings and numbers are immutable in Python and stay values. The generator of
  \<^verbatim>\<open>match\<close>, the iterators and the item tuples of the loops are temporaries no
  variable keeps; they are left out. A loop runs over the elements its list has
  when the loop starts.
\<close>

type_synonym ref = nat

datatype obj =
    Face_obj face
  | List_obj "ref list"
  | Dict_obj "(string \<times> ref) list"
  | Set_obj "string set"
  | Args_obj args
  | Function_obj category ref
  | Criteria_obj "ref list"
  | CardFilter_obj "ref option"

type_synonym heap = "obj list"

text \<open>\<open>alloc\<close> puts a new object at the end of the heap and returns its reference.\<close>

definition alloc :: "obj \<Rightarrow> heap \<Rightarrow> ref \<times> heap" where
  "alloc x h = (length h, h @ [x])"

text \<open>
  Reading an object of an expected kind. The program applies \<^verbatim>\<open>face['colors']\<close>,
  \<^verbatim>\<open>for ... in\<close>, \<^verbatim>\<open>.items()\<close>, \<^verbatim>\<open><=\<close> and a call to whatever object it is
  handed; on an object of another kind Python raises (TypeError or AttributeError).
  The readers answer \<open>None\<close> there and the methods below turn it into TypeError.
\<close>

definition get_face :: "heap \<Rightarrow> ref \<Rightarrow> face option" where
  "get_face h r = (if r < length h then (case h ! r of Face_obj f \<Rightarrow> Some f | _ \<Rightarrow> None) else None)"

definition get_list :: "heap \<Rightarrow> ref \<Rightarrow> ref list option" where
  "get_list h r = (if r < length h then (case h ! r of List_obj rs \<Rightarrow> Some rs | _ \<Rightarrow> None) else None)"

definition get_dict :: "heap \<Rightarrow> ref \<Rightarrow> (string \<times> ref) list option" where
  "get_dict h r = (if r < length h then (case h ! r of Dict_obj d \<Rightarrow> Some d | _ \<Rightarrow> None) else None)"

definition get_set :: "heap \<Rightarrow> ref \<Rightarrow> string set option" where
  "get_set h r = (if r < length h then (case h ! r of Set_obj A \<Rightarrow> Some A | _ \<Rightarrow> None) else None)"

definition get_args :: "heap \<Rightarrow> ref \<Rightarrow> args option" where
  "get_args h r = (if r < length h then (case h ! r of Args_obj a \<Rightarrow> Some a | _ \<Rightarrow> None) else None)"

definition get_function :: "heap \<Rightarrow> ref \<Rightarrow> (category \<times> ref) option" where
  "get_function h r =
     (if r < length h then (case h ! r of Function_obj c env \<Rightarrow> Some (c, env) | _ \<Rightarrow> None)
      else None)"

definition get_criteria :: "heap \<Rightarrow> ref \<Rightarrow> ref list option" where
  "get_criteria h r =
     (if r < length h then (case h ! r of Criteria_obj fs \<Rightarrow> Some fs | _ \<Rightarrow> None) else None)"

definition get_cardfilter :: "heap \<Rightarrow> ref \<Rightarrow> ref option option" where
  "get_cardfilter h r =
     (if r < length h then (case h ! r of CardFilter_obj c \<Rightarrow> Some c | _ \<Rightarrow> None) else None)"

text \<open>
  \<^verbatim>\<open>x <= y\<close> on two set objects, and \<^verbatim>\<open>d[k] = v\<close> on a dict object: the one
  operation of the matcher that writes into an object.
\<close>

definition set_le :: "heap \<Rightarrow> ref \<Rightarrow> ref \<Rightarrow> error + bool" where
  "set_le h x y =
     (case get_set h x of
        None \<Rightarrow> Inl TypeError
      | Some A \<Rightarrow> (case get_set h y of None \<Rightarrow> Inl TypeError | Some B \<Rightarrow> Inr (A \<subseteq> B)))"

definition setitem :: "ref \<Rightarrow> string \<Rightarrow> ref \<Rightarrow> heap \<Rightarrow> error + heap" where
  "setitem d k v h =
     (case get_dict h d of
        None \<Rightarrow> Inl TypeError
      | Some items \<Rightarrow> Inr (h[d := Dict_obj (dict_set items k v)]))"

text \<open>
  The bodies of the seven functions, line by line as in the definitions on values
  above (\<open>lambda_colors_all\<close> to \<open>cmc_check\<close>), with the free
  variable read from the function object and the face read from the heap.
  \<^verbatim>\<open>set(...)\<close> allocates a new set; the other steps read.
\<close>

fun body :: "category \<Rightarrow> ref \<Rightarrow> ref \<Rightarrow> heap \<Rightarrow> (error + bool) \<times> heap" where
  "body Required_colors env face h =
     (case get_args h env of
        None \<Rightarrow> (Inl TypeError, h)
      | Some a \<Rightarrow>
          (case colors_all a of
             None \<Rightarrow> (Inl TypeError, h)
           | Some required_colors \<Rightarrow>
               (let (x, h1) = alloc (Set_obj (set required_colors)) h in
                case get_face h1 face of
                  None \<Rightarrow> (Inl TypeError, h1)
                | Some f \<Rightarrow>
                    (case colors f of
                       None \<Rightarrow> (Inl KeyError, h1)
                     | Some cs \<Rightarrow>
                         (let (y, h2) = alloc (Set_obj (set cs)) h1 in (set_le h2 x y, h2))))))"
| "body Accepted_colors env face h =
     (case get_face h face of
        None \<Rightarrow> (Inl TypeError, h)
      | Some f \<Rightarrow>
          (case colors f of
             None \<Rightarrow> (Inl KeyError, h)
           | Some cs \<Rightarrow> (let (x, h1) = alloc (Set_obj (set cs)) h in (set_le h1 x env, h1))))"
| "body Power_range env face h =
     (case get_face h face of
        None \<Rightarrow> (Inl TypeError, h)
      | Some f \<Rightarrow>
          (case get_args h env of
             None \<Rightarrow> (Inl TypeError, h)
           | Some a \<Rightarrow> (power_check a f, h)))"
| "body Toughness_range env face h =
     (case get_face h face of
        None \<Rightarrow> (Inl TypeError, h)
      | Some f \<Rightarrow>
          (case get_args h env of
             None \<Rightarrow> (Inl TypeError, h)
           | Some a \<Rightarrow> (toughness_check a f, h)))"
| "body Required_types env face h =
     (case get_face h face of
        None \<Rightarrow> (Inl TypeError, h)
      | Some f \<Rightarrow>
          (case types f of
             None \<Rightarrow> (Inl KeyError, h)
           | Some ts \<Rightarrow> (let (y, h1) = alloc (Set_obj (set ts)) h in (set_le h1 env y, h1))))"
| "body Accepted_types env face h =
     (case get_face h face of
        None \<Rightarrow> (Inl TypeError, h)
      | Some f \<Rightarrow>
          (case types f of
             None \<Rightarrow> (Inl KeyError, h)
           | Some ts \<Rightarrow> (let (x, h1) = alloc (Set_obj (set ts)) h in (set_le h1 x env, h1))))"
| "body Mana_cost_range env face h =
     (case get_face h face of
        None \<Rightarrow> (Inl TypeError, h)
      | Some f \<Rightarrow>
          (case get_args h env of
             None \<Rightarrow> (Inl TypeError, h)
           | Some a \<Rightarrow> (cmc_check a f, h)))"

text \<open>
  Calling a function object (calling any other object raises TypeError), then
  \<^verbatim>\<open>match\<close> and \<^verbatim>\<open>matches\<close>, statement by statement as on values.
\<close>

definition call_h :: "ref \<Rightarrow> ref \<Rightarrow> heap \<Rightarrow> (error + bool) \<times> heap" where
  "call_h fn face h =
     (case get_function h fn of
        None \<Rightarrow> (Inl TypeError, h)
      | Some (c, env) \<Rightarrow> body c env face h)"

fun any_not_h :: "ref list \<Rightarrow> ref \<Rightarrow> heap \<Rightarrow> (error + bool) \<times> heap" where
  "any_not_h [] face h = (Inr False, h)"
| "any_not_h (fn # fns) face h =
     (case call_h fn face h of
        (Inl e, h') \<Rightarrow> (Inl e, h')
      | (Inr b, h') \<Rightarrow> if \<not> b then (Inr True, h') else any_not_h fns face h')"

definition match_h :: "ref \<Rightarrow> ref \<Rightarrow> heap \<Rightarrow> (error + bool) \<times> heap" where
  "match_h self face h =
     (case get_cardfilter h self of
        None \<Rightarrow> (Inl TypeError, h)
      | Some None \<Rightarrow> (Inl TypeError, h)
      | Some (Some cr) \<Rightarrow>
          (case get_criteria h cr of
             None \<Rightarrow> (Inl TypeError, h)
           | Some fns \<Rightarrow>
               (case any_not_h fns face h of
                  (Inl e, h') \<Rightarrow> (Inl e, h')
                | (Inr b, h') \<Rightarrow> (Inr (\<not> b), h'))))"

fun matches_loop_h :: "ref \<Rightarrow> ref list \<Rightarrow> heap \<Rightarrow> (error + bool) \<times> heap" where
  "matches_loop_h self [] h = (Inr False, h)"
| "matches_loop_h self (face # faces) h =
     (case match_h self face h of
        (Inl e, h') \<Rightarrow> (Inl e, h')
      | (Inr b, h') \<Rightarrow> if b then (Inr True, h') else matches_loop_h self faces h')"

definition matches_h :: "ref \<Rightarrow> ref \<Rightarrow> heap \<Rightarrow> (error + bool) \<times> heap" where
  "matches_h self faces h =
     (case get_list h faces of
        None \<Rightarrow> (Inl TypeError, h)
      | Some fs \<Rightarrow> matches_loop_h self fs h)"

text \<open>
  \<^verbatim>\<open>filter\<close>: the comprehension allocates an empty dict and assigns one item to it
  for every card that matches; it returns the reference of that dict.
\<close>

fun filter_loop_h ::
  "ref \<Rightarrow> (string \<times> ref) list \<Rightarrow> ref \<Rightarrow> heap \<Rightarrow> (error + ref) \<times> heap" where
  "filter_loop_h self [] out h = (Inr out, h)"
| "filter_loop_h self ((name, faces) # items) out h =
     (case matches_h self faces h of
        (Inl e, h') \<Rightarrow> (Inl e, h')
      | (Inr b, h') \<Rightarrow>
          if b then
            (case setitem out name faces h' of
               Inl e \<Rightarrow> (Inl e, h')
             | Inr h'' \<Rightarrow> filter_loop_h self items out h'')
          else filter_loop_h self items out h')"

definition filter_h :: "ref \<Rightarrow> ref \<Rightarrow> heap \<Rightarrow> (error + ref) \<times> heap" where
  "filter_h self card_dict h =
     (case get_dict h card_dict of
        None \<Rightarrow> (Inl TypeError, h)
      | Some items \<Rightarrow>
          (let (out, h1) = alloc (Dict_obj []) h in filter_loop_h self items out h1))"

text \<open>
  The values a heap holds, to compare the methods on the heap with the methods on
  values: the criterion a function object stands for, and when a \<^verbatim>\<open>CardFilter\<close>
  object, a list of faces and a dict of cards hold a given filter, given faces and
  given cards.
\<close>

fun criterion_at :: "heap \<Rightarrow> category \<Rightarrow> ref \<Rightarrow> criterion option" where
  "criterion_at h Required_colors env =
     map_option (\<lambda>a. \<lparr>category = Required_colors, call = lambda_colors_all a\<rparr>) (get_args h env)"
| "criterion_at h Accepted_colors env =
     map_option (\<lambda>A. \<lparr>category = Accepted_colors, call = lambda_colors_only A\<rparr>) (get_set h env)"
| "criterion_at h Power_range env =
     map_option (\<lambda>a. \<lparr>category = Power_range, call = power_check a\<rparr>) (get_args h env)"
| "criterion_at h Toughness_range env =
     map_option (\<lambda>a. \<lparr>category = Toughness_range, call = toughness_check a\<rparr>) (get_args h env)"
| "criterion_at h Required_types env =
     map_option (\<lambda>A. \<lparr>category = Required_types, call = lambda_types_all A\<rparr>) (get_set h env)"
| "criterion_at h Accepted_types env =
     map_option (\<lambda>A. \<lparr>category = Accepted_types, call = lambda_types_only A\<rparr>) (get_set h env)"
| "criterion_at h Mana_cost_range env =
     map_option (\<lambda>a. \<lparr>category = Mana_cost_range, call = cmc_check a\<rparr>) (get_args h env)"

definition criterion_of :: "heap \<Rightarrow> ref \<Rightarrow> criterion option" where
  "criterion_of h fn =
     (case get_function h fn of None \<Rightarrow> None | Some (c, env) \<Rightarrow> criterion_at h c env)"

definition is_cardfilter :: "heap \<Rightarrow> ref \<Rightarrow> cardfilter \<Rightarrow> bool" where
  "is_cardfilter h self cf =
     (case get_cardfilter h self of
        None \<Rightarrow> False
      | Some None \<Rightarrow> criteria cf = None
      | Some (Some cr) \<Rightarrow>
          (case get_criteria h cr of
             None \<Rightarrow> False
           | Some fns \<Rightarrow>
               (case criteria cf of
                  None \<Rightarrow> False
                | Some cs \<Rightarrow> list_all2 (\<lambda>fn c. criterion_of h fn = Some c) fns cs)))"

definition is_faces :: "heap \<Rightarrow> ref \<Rightarrow> face list \<Rightarrow> bool" where
  "is_faces h faces fs =
     (case get_list h faces of
        None \<Rightarrow> False
      | Some rs \<Rightarrow> list_all2 (\<lambda>r f. get_face h r = Some f) rs fs)"

definition is_cards :: "heap \<Rightarrow> (string \<times> ref) list \<Rightarrow> (string \<times> face list) list \<Rightarrow> bool" where
  "is_cards h items cards =
     list_all2 (\<lambda>(name, faces) (name', fs). name' = name \<and> is_faces h faces fs) items cards"

section \<open>Inputs used in the examples\<close>

text \<open>
  The command line with no option, and the two faces of the end-to-end examples in
  section 8 of the specification: the Forest and the red-green 3/3 creature.
\<close>

definition no_args :: args where
  "no_args = \<lparr>colors_only = None, colors_all = None, power_min = None, power_max = None,
     tough_min = None, tough_max = None, types_only = None, types_all = None,
     cmc_min = None, cmc_max = None\<rparr>"

definition forest :: face where
  "forest = \<lparr>colors = Some [], types = Some [''Land''], power_fld = None, toughness = None,
     convertedManaCost = Some 0\<rparr>"

definition bear :: face where
  "bear = \<lparr>colors = Some [''R'', ''G''], types = Some [''Creature''], power_fld = Some ''3'',
     toughness = Some ''3'', convertedManaCost = Some 2\<rparr>"

text \<open>
  A heap with the two faces (references 0 and 1), three lists of faces (2 to 4), the
  card dict (5), and the filter of \<^verbatim>\<open>--types-all Land\<close>: the set \<^verbatim>\<open>required\<close> (6),
  the lambda of line 63 (7), the list of criteria (8) and the \<^verbatim>\<open>CardFilter\<close> (9).
\<close>

definition heap0 :: heap where
  "heap0 =
     [Face_obj forest, Face_obj bear, List_obj [0], List_obj [1], List_obj [0, 1],
      Dict_obj [(''Forest'', 2), (''Bear'', 3), (''Both'', 4)],
      Set_obj {''Land''}, Function_obj Required_types 6, Criteria_obj [7],
      CardFilter_obj (Some 8)]"


text \<open>
  The condition of the \<^verbatim>\<open>if\<close> statement of \<^verbatim>\<open>from_args\<close> that appends the criterion
  of a category (lines 23, 29, 35, 48, 61, 67 and 73).
\<close>

fun guard :: "args \<Rightarrow> category \<Rightarrow> bool" where
  "guard a Required_colors = truthy_list (colors_all a)"
| "guard a Accepted_colors = truthy_list (colors_only a)"
| "guard a Power_range = (truthy_int (power_min a) \<or> truthy_int (power_max a))"
| "guard a Toughness_range = (truthy_int (tough_min a) \<or> truthy_int (tough_max a))"
| "guard a Required_types = truthy_list (types_all a)"
| "guard a Accepted_types = truthy_list (types_only a)"
| "guard a Mana_cost_range = (truthy_int (cmc_min a) \<or> truthy_int (cmc_max a))"

lemmas eval_defs =
  from_args_def build_criteria_def CardFilter_init_def truthy_list_def truthy_int_def
  match_def lambda_colors_all_def lambda_colors_only_def lambda_types_all_def
  lambda_types_only_def power_check_def toughness_check_def cmc_check_def range_check_def
  accepted_cell_def or_int_def isnumeric_def isnumeric_char_def is_decimal_char_def
  py_int_def float_or_def returns_def filter_cards_def no_args_def forest_def bear_def

section \<open>Facts about the criteria and the loops\<close>

lemma returns_iff: "returns r \<longleftrightarrow> (\<exists>v. r = Inr v)"
  by (cases r) (simp_all add: returns_def)

text \<open>\<^verbatim>\<open>match\<close> on a list of criteria that all return: the conjunction of their results.\<close>

lemma any_not_no_raise:
  "list_all (\<lambda>c. returns (call c face)) cs \<Longrightarrow>
   any_not cs face = Inr (\<exists>c \<in> set cs. call c face = Inr False)"
  by (induction cs) (auto simp: returns_iff)

lemma match_None: "criteria self = None \<Longrightarrow> match self face = Inl TypeError"
  by (simp add: match_def)

lemma match_Nil: "match \<lparr>criteria = Some []\<rparr> face = Inr True"
  by (simp add: match_def)

lemma no_criteria_match_raises:
  "build_criteria a = [] \<Longrightarrow> match (from_args a) face = Inl TypeError"
  by (simp add: from_args_def CardFilter_init_def match_def)

text \<open>
  The categories of the criteria \<^verbatim>\<open>from_args\<close> builds are the categories whose guard
  is true, each once, in the order of the source.
\<close>

lemma filter_Cons_append: "filter P (x # xs) = (if P x then [x] else []) @ filter P xs"
  by simp

lemma build_criteria_categories:
  "map category (build_criteria a) =
     filter (guard a)
       [Required_colors, Accepted_colors, Power_range, Toughness_range,
        Required_types, Accepted_types, Mana_cost_range]"
  unfolding build_criteria_def filter_Cons_append map_append by simp

lemma build_criteria_one_per_guard:
  "distinct (map category (build_criteria a)) \<and>
   (c \<in> category ` set (build_criteria a) \<longleftrightarrow> guard a c)"
proof -
  have "distinct (map category (build_criteria a))"
    unfolding build_criteria_categories by (rule distinct_filter) simp
  moreover have "category ` set (build_criteria a) = set (map category (build_criteria a))"
    by simp
  then have "c \<in> category ` set (build_criteria a) \<longleftrightarrow> guard a c"
    unfolding build_criteria_categories by (cases c) simp_all
  ultimately show ?thesis by simp
qed


lemma range_check_not_numeric:
  "p = None \<or> (\<exists>s. p = Some s \<and> \<not> isnumeric s) \<Longrightarrow> range_check lo hi p = Inr False"
  by (auto simp: range_check_def isnumeric_def)


text \<open>
  The two lambdas of lines 31 and 69 share the variable \<^verbatim>\<open>accepted\<close>: with
  \<^verbatim>\<open>--colors-only R --types-only Creature\<close> the colour test compares the colours of
  the face with the set of accepted types, and a red face fails it.
\<close>

lemma accepted_shared_by_both_lambdas:
  "call (hd (build_criteria
       (no_args\<lparr>colors_only := Some [''R''], types_only := Some [''Creature'']\<rparr>)))
     (bear\<lparr>colors := Some [''R'']\<rparr>) = Inr False
   \<and> call (hd (build_criteria (no_args\<lparr>colors_only := Some [''R'']\<rparr>)))
     (bear\<lparr>colors := Some [''R'']\<rparr>) = Inr True"
  by (simp add: eval_defs)

text \<open>The loops of \<^verbatim>\<open>matches\<close> and \<^verbatim>\<open>filter\<close>.\<close>

lemma matches_True_D:
  "matches self faces = Inr True \<Longrightarrow> \<exists>f \<in> set faces. match self f = Inr True"
  by (induction faces) (auto split: sum.splits if_splits)

lemma matches_no_raise:
  "list_all (\<lambda>f. returns (match self f)) faces \<Longrightarrow>
   matches self faces = Inr (\<exists>f \<in> set faces. match self f = Inr True)"
  by (induction faces) (auto simp: returns_iff)

lemma dict_set_fresh: "k \<notin> fst ` set d \<Longrightarrow> dict_set d k v = d @ [(k, v)]"
  by (induction d) auto

lemma set_dict_set: "set (dict_set d k v) \<subseteq> insert (k, v) (set d)"
  by (induction d) (auto split: if_splits)

lemma filter_loop_no_raise:
  "distinct (map fst items) \<Longrightarrow> fst ` set out \<inter> fst ` set items = {} \<Longrightarrow>
   list_all (\<lambda>(name, faces). returns (matches self faces)) items \<Longrightarrow>
   filter_loop self items out =
     Inr (out @ filter (\<lambda>(name, faces). matches self faces = Inr True) items)"
proof (induction items arbitrary: out)
  case Nil
  then show ?case by simp
next
  case (Cons item items)
  obtain name faces where item: "item = (name, faces)" by (cases item)
  from Cons.prems(3) item obtain b where b: "matches self faces = Inr b"
    by (auto simp: returns_iff)
  have fresh: "name \<notin> fst ` set out" using Cons.prems(2) item by auto
  let ?out' = "if b then dict_set out name faces else out"
  have out': "?out' = (if b then out @ [(name, faces)] else out)"
    using fresh by (simp add: dict_set_fresh)
  have disj: "fst ` set ?out' \<inter> fst ` set items = {}"
    using Cons.prems(1,2) item unfolding out' by (auto simp: image_iff)
  have "filter_loop self items ?out' =
      Inr (?out' @ filter (\<lambda>(name, faces). matches self faces = Inr True) items)"
    using Cons.IH [OF _ disj] Cons.prems(1,3) by simp
  then show ?case using b item out' by simp
qed

text \<open>An exception in \<^verbatim>\<open>matches\<close> on any card ends \<^verbatim>\<open>filter\<close> with an exception.\<close>

lemma filter_loop_raises:
  "\<not> list_all (\<lambda>(name, faces). returns (matches self faces)) items \<Longrightarrow>
   \<exists>e. filter_loop self items out = Inl e"
proof (induction items arbitrary: out)
  case Nil
  then show ?case by simp
next
  case (Cons item items)
  obtain name faces where item: "item = (name, faces)" by (cases item)
  show ?case
  proof (cases "matches self faces")
    case (Inl e)
    then show ?thesis using item by simp
  next
    case (Inr b)
    then have "\<not> list_all (\<lambda>(name, faces). returns (matches self faces)) items"
      using Cons.prems item by (simp add: returns_def)
    from Cons.IH [OF this] show ?thesis using Inr item by simp
  qed
qed

text \<open>
  On the heap: a criterion, \<^verbatim>\<open>match\<close> and \<^verbatim>\<open>matches\<close> only add objects at the end;
  \<^verbatim>\<open>filter\<close> also writes, and only into the dict it allocated.
\<close>

lemma body_appends: "\<exists>xs. snd (body c env face h) = h @ xs"
  by (cases c) (auto simp: alloc_def split: option.splits)

lemma call_h_appends: "\<exists>xs. snd (call_h fn face h) = h @ xs"
  using body_appends by (auto simp: call_h_def split: option.splits)

lemma any_not_h_appends: "\<exists>xs. snd (any_not_h fns face h) = h @ xs"
proof (induction fns arbitrary: h)
  case Nil
  then show ?case by simp
next
  case (Cons fn fns)
  obtain r h' where c: "call_h fn face h = (r, h')" by (cases "call_h fn face h")
  with call_h_appends [of fn face h] obtain xs where xs: "h' = h @ xs" by auto
  from Cons.IH [of h'] obtain ys where "snd (any_not_h fns face h') = h' @ ys" by auto
  then show ?case using c xs by (cases r) auto
qed

lemma match_h_appends: "\<exists>xs. snd (match_h self face h) = h @ xs"
proof -
  { fix fns
    obtain r h' where a: "any_not_h fns face h = (r, h')" by (cases "any_not_h fns face h")
    with any_not_h_appends [of fns face h] obtain xs where "h' = h @ xs" by auto
    then have "\<exists>xs. snd (case any_not_h fns face h of
                  (Inl e, h') \<Rightarrow> (Inl e, h') | (Inr b, h') \<Rightarrow> (Inr (\<not> b), h')) = h @ xs"
      using a by (cases r) auto }
  then show ?thesis by (auto simp: match_h_def split: option.splits)
qed

lemma matches_loop_h_appends: "\<exists>xs. snd (matches_loop_h self faces h) = h @ xs"
proof (induction faces arbitrary: h)
  case Nil
  then show ?case by simp
next
  case (Cons face faces)
  obtain r h' where c: "match_h self face h = (r, h')" by (cases "match_h self face h")
  with match_h_appends [of self face h] obtain xs where xs: "h' = h @ xs" by auto
  from Cons.IH [of h'] obtain ys where "snd (matches_loop_h self faces h') = h' @ ys" by auto
  then show ?case using c xs by (cases r) auto
qed

lemma matches_h_appends: "\<exists>xs. snd (matches_h self faces h) = h @ xs"
  using matches_loop_h_appends by (auto simp: matches_h_def split: option.splits)

lemma get_dict_append: "r < length h \<Longrightarrow> get_dict (h @ xs) r = get_dict h r"
  by (simp add: get_dict_def nth_append)

lemma get_dict_Some_less: "get_dict h r = Some d \<Longrightarrow> r < length h"
  by (simp add: get_dict_def split: if_splits)

lemma setitem_frame:
  assumes "setitem out k v h = Inr h'" and "n \<le> out"
  shows "take n h' = take n h \<and> length h' = length h
    \<and> (\<exists>d. get_dict h out = Some d \<and> get_dict h' out = Some (dict_set d k v))"
  using assms by (auto simp: setitem_def get_dict_def split: option.splits if_splits)

lemma filter_loop_h_frame:
  "n \<le> out \<Longrightarrow> get_dict h out = Some cur \<Longrightarrow> set cur \<subseteq> S \<Longrightarrow> set items \<subseteq> S \<Longrightarrow>
   take n (snd (filter_loop_h self items out h)) = take n h
   \<and> (case fst (filter_loop_h self items out h) of
        Inl e \<Rightarrow> True
      | Inr r \<Rightarrow> r = out
          \<and> (\<exists>res. get_dict (snd (filter_loop_h self items out h)) out = Some res
                \<and> set res \<subseteq> S))"
proof (induction items arbitrary: h cur)
  case Nil
  then show ?case by simp
next
  case (Cons item items)
  obtain name faces where item: "item = (name, faces)" by (cases item)
  obtain r h' where m: "matches_h self faces h = (r, h')" by (cases "matches_h self faces h")
  with matches_h_appends [of self faces h] obtain xs where h': "h' = h @ xs" by auto
  have less: "out < length h" using Cons.prems(2) by (rule get_dict_Some_less)
  have n: "n \<le> length h" using Cons.prems(1) less by simp
  have pre: "take n h' = take n h" using n h' by simp
  have cur: "get_dict h' out = Some cur" using less h' Cons.prems(2) by (simp add: get_dict_append)
  have items: "set items \<subseteq> S" and mem: "(name, faces) \<in> S" using Cons.prems(4) item by auto
  show ?case
  proof (cases r)
    case (Inl e)
    then have "filter_loop_h self (item # items) out h = (Inl e, h')"
      using m item by simp
    then show ?thesis using pre by simp
  next
    case (Inr b)
    show ?thesis
    proof (cases b)
      case False
      have eq: "filter_loop_h self (item # items) out h = filter_loop_h self items out h'"
        using m item Inr False by simp
      show ?thesis
        unfolding eq using Cons.IH [OF Cons.prems(1) cur Cons.prems(3) items] pre by simp
    next
      case True
      show ?thesis
      proof (cases "setitem out name faces h'")
        case (Inl e)
        then have "filter_loop_h self (item # items) out h = (Inl e, h')"
          using m item \<open>r = Inr b\<close> True by simp
        then show ?thesis using pre by simp
      next
        case (Inr h'')
        from setitem_frame [OF Inr Cons.prems(1)] cur
        have pre'': "take n h'' = take n h'"
          and cur'': "get_dict h'' out = Some (dict_set cur name faces)" by auto
        have sub: "set (dict_set cur name faces) \<subseteq> S"
          using set_dict_set [of cur name faces] Cons.prems(3) mem by auto
        have eq: "filter_loop_h self (item # items) out h = filter_loop_h self items out h''"
          using m item \<open>r = Inr b\<close> True Inr by simp
        show ?thesis
          unfolding eq using Cons.IH [OF Cons.prems(1) cur'' sub items] pre pre'' by simp
      qed
    qed
  qed
qed

lemma filter_h_heap0:
  "filter_h 9 5 heap0 =
     (Inr 10, heap0 @ [Dict_obj [(''Forest'', 2), (''Both'', 4)],
                       Set_obj {''Land''}, Set_obj {''Creature''}, Set_obj {''Land''}])"
  by (simp add: heap0_def filter_h_def matches_h_def match_h_def call_h_def alloc_def
      setitem_def set_le_def get_face_def get_list_def get_dict_def get_set_def get_args_def
      get_function_def get_criteria_def get_cardfilter_def forest_def bear_def nth_append)

text \<open>
  The methods on the heap return what the methods on values return, on the values
  the heap holds.
\<close>

lemma get_set_append: "get_set h r = Some A \<Longrightarrow> get_set (h @ xs) r = Some A"
  by (auto simp: get_set_def nth_append split: if_splits)

lemma get_set_new: "get_set (h @ [Set_obj A]) (length h) = Some A"
  by (simp add: get_set_def)

lemma get_set_new2: "get_set (h @ [Set_obj A, x]) (length h) = Some A"
  by (simp add: get_set_def nth_append)

lemma get_set_new3: "get_set (h @ [x, Set_obj A]) (Suc (length h)) = Some A"
  by (simp add: get_set_def nth_append)

lemma get_face_append: "get_face h r = Some f \<Longrightarrow> get_face (h @ xs) r = Some f"
  by (auto simp: get_face_def nth_append split: if_splits)

lemma body_value:
  assumes "criterion_at h c env = Some cr" and "get_face h face = Some f"
  shows "fst (body c env face h) = call cr f"
proof (cases c)
  case Required_colors
  with assms obtain a where a: "get_args h env = Some a" and cr: "cr = \<lparr>category = Required_colors, call = lambda_colors_all a\<rparr>"
    by auto
  show ?thesis
    using a assms(2) get_face_append [OF assms(2)]
    by (simp add: Required_colors cr alloc_def lambda_colors_all_def set_le_def
          get_set_def nth_append split: option.splits)
next
  case Accepted_colors
  with assms obtain A where A: "get_set h env = Some A" and cr: "cr = \<lparr>category = Accepted_colors, call = lambda_colors_only A\<rparr>"
    by auto
  show ?thesis
    using assms(2) get_set_append [OF A]
    by (simp add: Accepted_colors cr alloc_def lambda_colors_only_def set_le_def get_set_new
        split: option.splits)
next
  case Power_range
  with assms show ?thesis by auto
next
  case Toughness_range
  with assms show ?thesis by auto
next
  case Required_types
  with assms obtain A where A: "get_set h env = Some A" and cr: "cr = \<lparr>category = Required_types, call = lambda_types_all A\<rparr>"
    by auto
  show ?thesis
    using assms(2) get_set_append [OF A]
    by (simp add: Required_types cr alloc_def lambda_types_all_def set_le_def get_set_new
        split: option.splits)
next
  case Accepted_types
  with assms obtain A where A: "get_set h env = Some A" and cr: "cr = \<lparr>category = Accepted_types, call = lambda_types_only A\<rparr>"
    by auto
  show ?thesis
    using assms(2) get_set_append [OF A]
    by (simp add: Accepted_types cr alloc_def lambda_types_only_def set_le_def get_set_new
        split: option.splits)
next
  case Mana_cost_range
  with assms show ?thesis by auto
qed

lemma get_args_append: "get_args h r = Some a \<Longrightarrow> get_args (h @ xs) r = Some a"
  by (auto simp: get_args_def nth_append split: if_splits)

lemma get_function_append: "get_function h r = Some x \<Longrightarrow> get_function (h @ xs) r = Some x"
  by (auto simp: get_function_def nth_append split: if_splits)

lemma criterion_at_append:
  "criterion_at h c env = Some cr \<Longrightarrow> criterion_at (h @ xs) c env = Some cr"
  by (cases c) (auto simp: get_args_append get_set_append)

lemma criterion_of_append:
  "criterion_of h fn = Some cr \<Longrightarrow> criterion_of (h @ xs) fn = Some cr"
  by (auto simp: criterion_of_def get_function_append criterion_at_append split: option.splits)

lemma call_h_value:
  "criterion_of h fn = Some cr \<Longrightarrow> get_face h face = Some f \<Longrightarrow>
   fst (call_h fn face h) = call cr f"
  by (auto simp: criterion_of_def call_h_def body_value split: option.splits)

lemma any_not_h_value:
  "list_all2 (\<lambda>fn cr. criterion_of h fn = Some cr) fns cs \<Longrightarrow> get_face h face = Some f \<Longrightarrow>
   fst (any_not_h fns face h) = any_not cs f"
proof (induction fns arbitrary: h cs)
  case Nil
  then show ?case by simp
next
  case (Cons fn fns)
  from Cons.prems(1) obtain cr cs' where cs: "cs = cr # cs'"
    and cr: "criterion_of h fn = Some cr"
    and rest: "list_all2 (\<lambda>fn cr. criterion_of h fn = Some cr) fns cs'"
    by (auto simp: list_all2_Cons1)
  obtain r h' where c: "call_h fn face h = (r, h')" by (cases "call_h fn face h")
  with call_h_appends [of fn face h] obtain xs where h': "h' = h @ xs" by auto
  have r: "r = call cr f" using call_h_value [OF cr Cons.prems(2)] c by simp
  have rest': "list_all2 (\<lambda>fn cr. criterion_of h' fn = Some cr) fns cs'"
    using rest unfolding h' by (rule list_all2_mono) (rule criterion_of_append)
  have f': "get_face h' face = Some f" unfolding h' using Cons.prems(2) by (rule get_face_append)
  show ?case
  proof (cases r)
    case (Inl e)
    then show ?thesis using c r cs by simp
  next
    case (Inr b)
    then show ?thesis using c r cs Cons.IH [OF rest' f'] by simp
  qed
qed

lemma get_criteria_append: "get_criteria h r = Some x \<Longrightarrow> get_criteria (h @ xs) r = Some x"
  by (auto simp: get_criteria_def nth_append split: if_splits)

lemma get_cardfilter_append:
  "get_cardfilter h r = Some x \<Longrightarrow> get_cardfilter (h @ xs) r = Some x"
  by (auto simp: get_cardfilter_def nth_append split: if_splits)

lemma get_list_append: "get_list h r = Some x \<Longrightarrow> get_list (h @ xs) r = Some x"
  by (auto simp: get_list_def nth_append split: if_splits)

lemma is_cardfilter_append: "is_cardfilter h self cf \<Longrightarrow> is_cardfilter (h @ xs) self cf"
  unfolding is_cardfilter_def
  by (auto simp: get_cardfilter_append get_criteria_append split: option.splits
      elim!: list_all2_mono intro: criterion_of_append)

lemma is_faces_append: "is_faces h faces fs \<Longrightarrow> is_faces (h @ xs) faces fs"
  unfolding is_faces_def
  by (auto simp: get_list_append split: option.splits elim!: list_all2_mono intro: get_face_append)

lemma is_cards_append: "is_cards h items cards \<Longrightarrow> is_cards (h @ xs) items cards"
  unfolding is_cards_def by (erule list_all2_mono) (auto intro: is_faces_append)

lemma match_h_value:
  assumes "is_cardfilter h self cf" and "get_face h face = Some f"
  shows "fst (match_h self face h) = match cf f"
proof (cases "criteria cf")
  case None
  then show ?thesis using assms(1)
    by (auto simp: is_cardfilter_def match_h_def match_def split: option.splits)
next
  case (Some cs)
  with assms(1) obtain cr fns where cr: "get_cardfilter h self = Some (Some cr)"
    and fns: "get_criteria h cr = Some fns"
    and rel: "list_all2 (\<lambda>fn c. criterion_of h fn = Some c) fns cs"
    by (auto simp: is_cardfilter_def split: option.splits)
  obtain r h' where a: "any_not_h fns face h = (r, h')" by (cases "any_not_h fns face h")
  have "r = any_not cs f" using any_not_h_value [OF rel assms(2)] a by simp
  with a have a': "any_not_h fns face h = (any_not cs f, h')" by simp
  show ?thesis by (simp add: match_h_def match_def cr fns Some a' split: sum.splits)
qed

lemma matches_loop_h_value:
  "is_cardfilter h self cf \<Longrightarrow> list_all2 (\<lambda>r f. get_face h r = Some f) rs fs \<Longrightarrow>
   fst (matches_loop_h self rs h) = matches cf fs"
proof (induction rs arbitrary: h fs)
  case Nil
  then show ?case by simp
next
  case (Cons r rs)
  from Cons.prems(2) obtain f fs' where fs: "fs = f # fs'" and f: "get_face h r = Some f"
    and rest: "list_all2 (\<lambda>r f. get_face h r = Some f) rs fs'"
    by (auto simp: list_all2_Cons1)
  obtain v h' where m: "match_h self r h = (v, h')" by (cases "match_h self r h")
  with match_h_appends [of self r h] obtain xs where h': "h' = h @ xs" by auto
  have v: "v = match cf f" using match_h_value [OF Cons.prems(1) f] m by simp
  have cf': "is_cardfilter h' self cf" unfolding h' using Cons.prems(1) by (rule is_cardfilter_append)
  have rest': "list_all2 (\<lambda>r f. get_face h' r = Some f) rs fs'"
    using rest unfolding h' by (rule list_all2_mono) (rule get_face_append)
  show ?case
  proof (cases v)
    case (Inl e)
    then show ?thesis using m v fs by simp
  next
    case (Inr b)
    then show ?thesis using m v fs Cons.IH [OF cf' rest'] by simp
  qed
qed

lemma matches_h_value:
  "is_cardfilter h self cf \<Longrightarrow> is_faces h faces fs \<Longrightarrow>
   fst (matches_h self faces h) = matches cf fs"
  by (auto simp: is_faces_def matches_h_def matches_loop_h_value split: option.splits)

lemma setitem_D:
  "setitem out k v h = Inr h' \<Longrightarrow>
   \<exists>d. out < length h \<and> h ! out = Dict_obj d \<and> h' = h[out := Dict_obj (dict_set d k v)]"
  by (auto simp: setitem_def get_dict_def split: option.splits if_splits obj.splits)

lemma setitem_get_face: "setitem out k v h = Inr h' \<Longrightarrow> get_face h' r = get_face h r"
  by (drule setitem_D) (auto simp: get_face_def nth_list_update)

lemma setitem_get_list: "setitem out k v h = Inr h' \<Longrightarrow> get_list h' r = get_list h r"
  by (drule setitem_D) (auto simp: get_list_def nth_list_update)

lemma setitem_get_set: "setitem out k v h = Inr h' \<Longrightarrow> get_set h' r = get_set h r"
  by (drule setitem_D) (auto simp: get_set_def nth_list_update)

lemma setitem_get_args: "setitem out k v h = Inr h' \<Longrightarrow> get_args h' r = get_args h r"
  by (drule setitem_D) (auto simp: get_args_def nth_list_update)

lemma setitem_get_function:
  "setitem out k v h = Inr h' \<Longrightarrow> get_function h' r = get_function h r"
  by (drule setitem_D) (auto simp: get_function_def nth_list_update)

lemma setitem_get_criteria:
  "setitem out k v h = Inr h' \<Longrightarrow> get_criteria h' r = get_criteria h r"
  by (drule setitem_D) (auto simp: get_criteria_def nth_list_update)

lemma setitem_get_cardfilter:
  "setitem out k v h = Inr h' \<Longrightarrow> get_cardfilter h' r = get_cardfilter h r"
  by (drule setitem_D) (auto simp: get_cardfilter_def nth_list_update)

lemma setitem_criterion_of:
  assumes "setitem out k v h = Inr h'"
  shows "criterion_of h' fn = criterion_of h fn"
proof -
  have "criterion_at h' c env = criterion_at h c env" for c env
    by (cases c) (simp_all add: setitem_get_args [OF assms] setitem_get_set [OF assms])
  then show ?thesis
    by (simp add: criterion_of_def setitem_get_function [OF assms] split: option.splits)
qed

lemma setitem_is_cardfilter:
  "setitem out k v h = Inr h' \<Longrightarrow> is_cardfilter h' self cf = is_cardfilter h self cf"
  by (simp add: is_cardfilter_def setitem_get_cardfilter setitem_get_criteria
      setitem_criterion_of split: option.splits)

lemma setitem_is_faces:
  "setitem out k v h = Inr h' \<Longrightarrow> is_faces h' faces fs = is_faces h faces fs"
  by (simp add: is_faces_def setitem_get_list setitem_get_face split: option.splits)

lemma setitem_is_cards:
  "setitem out k v h = Inr h' \<Longrightarrow> is_cards h' items cards = is_cards h items cards"
  by (simp add: is_cards_def setitem_is_faces)

lemma is_cards_dict_set:
  "is_cards h cur curv \<Longrightarrow> is_faces h faces fs \<Longrightarrow>
   is_cards h (dict_set cur name faces) (dict_set curv name fs)"
  unfolding is_cards_def
  by (induction cur curv rule: list_all2_induct) auto

lemma filter_loop_h_value:
  "is_cardfilter h self cf \<Longrightarrow> is_cards h items cards \<Longrightarrow> get_dict h out = Some cur \<Longrightarrow>
   is_cards h cur curv \<Longrightarrow>
   (case fst (filter_loop_h self items out h) of
      Inl e \<Rightarrow> filter_loop cf cards curv = Inl e
    | Inr r \<Rightarrow> r = out
        \<and> (\<exists>res resv. get_dict (snd (filter_loop_h self items out h)) out = Some res
              \<and> is_cards (snd (filter_loop_h self items out h)) res resv
              \<and> filter_loop cf cards curv = Inr resv))"
proof (induction items arbitrary: h cards cur curv)
  case Nil
  then show ?case by (simp add: is_cards_def)
next
  case (Cons item items)
  obtain name faces where item: "item = (name, faces)" by (cases item)
  from Cons.prems(2) item obtain fs cards' where cards: "cards = (name, fs) # cards'"
    and fs: "is_faces h faces fs" and rest: "is_cards h items cards'"
    by (auto simp: is_cards_def list_all2_Cons1)
  obtain v h' where m: "matches_h self faces h = (v, h')" by (cases "matches_h self faces h")
  with matches_h_appends [of self faces h] obtain xs where h': "h' = h @ xs" by auto
  have v: "v = matches cf fs" using matches_h_value [OF Cons.prems(1) fs] m by simp
  have less: "out < length h" using Cons.prems(3) by (rule get_dict_Some_less)
  have cf': "is_cardfilter h' self cf" unfolding h' using Cons.prems(1) by (rule is_cardfilter_append)
  have rest': "is_cards h' items cards'" unfolding h' using rest by (rule is_cards_append)
  have cur': "get_dict h' out = Some cur" using less Cons.prems(3) by (simp add: h' get_dict_append)
  have curv': "is_cards h' cur curv" unfolding h' using Cons.prems(4) by (rule is_cards_append)
  have fs': "is_faces h' faces fs" unfolding h' using fs by (rule is_faces_append)
  show ?case
  proof (cases v)
    case (Inl e)
    then have "filter_loop_h self (item # items) out h = (Inl e, h')" using m item by simp
    moreover have "matches cf fs = Inl e" using v Inl by simp
    ultimately show ?thesis using cards by simp
  next
    case (Inr b)
    have mv: "matches cf fs = Inr b" using v Inr by simp
    show ?thesis
    proof (cases b)
      case False
      have eq: "filter_loop_h self (item # items) out h = filter_loop_h self items out h'"
        using m item Inr False by simp
      have eq': "filter_loop cf cards curv = filter_loop cf cards' curv"
        using mv False cards by simp
      show ?thesis unfolding eq eq' by (rule Cons.IH [OF cf' rest' cur' curv'])
    next
      case True
      obtain h'' where s: "setitem out name faces h' = Inr h''"
        using cur' by (simp add: setitem_def)
      have cur'': "get_dict h'' out = Some (dict_set cur name faces)"
        using s cur' by (auto simp: setitem_def get_dict_def split: if_splits)
      have eq: "filter_loop_h self (item # items) out h = filter_loop_h self items out h''"
        using m item \<open>v = Inr b\<close> True s by simp
      have eq': "filter_loop cf cards curv = filter_loop cf cards' (dict_set curv name fs)"
        using mv True cards by simp
      show ?thesis
        unfolding eq eq'
        by (rule Cons.IH [OF _ _ cur''])
          (simp_all add: setitem_is_cardfilter [OF s] setitem_is_cards [OF s] cf' rest'
             is_cards_dict_set [OF curv' fs'])
    qed
  qed
qed

lemma filter_h_value:
  assumes "is_cardfilter h self cf" and "get_dict h card_dict = Some items"
    and "is_cards h items cards"
  shows "case fst (filter_h self card_dict h) of
      Inl e \<Rightarrow> filter_cards cf cards = Inl e
    | Inr out \<Rightarrow>
        (\<exists>res resv. get_dict (snd (filter_h self card_dict h)) out = Some res
           \<and> is_cards (snd (filter_h self card_dict h)) res resv
           \<and> filter_cards cf cards = Inr resv)"
proof -
  let ?h1 = "h @ [Dict_obj []]"
  have new: "get_dict ?h1 (length h) = Some []" by (simp add: get_dict_def)
  have "is_cards ?h1 [] []" by (simp add: is_cards_def)
  from filter_loop_h_value [OF is_cardfilter_append [OF assms(1)] is_cards_append [OF assms(3)]
      new this]
  show ?thesis
    using assms(2) by (auto simp: filter_h_def alloc_def filter_cards_def split: sum.splits)
qed

lemma heap0_holds_example:
  "is_cardfilter heap0 9 (from_args (no_args\<lparr>types_all := Some [''Land'']\<rparr>))
   \<and> is_cards heap0 [(''Forest'', 2), (''Bear'', 3), (''Both'', 4)]
        [(''Forest'', [forest]), (''Bear'', [bear]), (''Both'', [forest, bear])]"
  by (simp add: heap0_def is_cardfilter_def is_cards_def is_faces_def criterion_of_def
      get_cardfilter_def get_criteria_def get_function_def get_set_def get_list_def
      get_face_def eval_defs)

section \<open>The claims\<close>

text \<open>
  Claim C1: with no active constraint category \<^verbatim>\<open>filter\<close> returns the card mapping
  unchanged, and with zero predicates \<^verbatim>\<open>match\<close> accepts every face.

  The code does not: \<^verbatim>\<open>from_args\<close> builds the empty list, line 11 stores None for
  it, and line 103 iterates over None. On the first end-to-end example of the
  specification (the Forest, no constraint) \<^verbatim>\<open>match\<close>, \<^verbatim>\<open>matches\<close> and \<^verbatim>\<open>filter\<close> all
  end with TypeError. The loop of \<^verbatim>\<open>match\<close> itself accepts every face on an empty
  list (lemma \<open>match_Nil\<close>), but the constructor never stores one.
\<close>

theorem no_constraints_raise_TypeError:
  "criteria (from_args no_args) = None
   \<and> match (from_args no_args) forest = Inl TypeError
   \<and> matches (from_args no_args) [forest] = Inl TypeError
   \<and> filter_cards (from_args no_args) [(''Forest'', [forest])] = Inl TypeError"
  by (simp add: eval_defs)

text \<open>
  Claim C2: an active mana-cost predicate rejects every face of cost exactly 0, and
  accepts any other face iff its cost exists and lies in [min if given else 0,
  max if given else 9999].

  A face of cost 0 is rejected, whatever the bounds. The interval is not the
  claim's when the maximum is given as 0: line 77 tests the truth value of
  \<^verbatim>\<open>args.cmc_max\<close>, 0 is false, and the bound becomes 9999. With
  \<^verbatim>\<open>--cmc-min 1 --cmc-max 0\<close> a face of cost 5 is accepted, though 5 is above the
  given maximum.
\<close>

theorem cmc_max_zero_accepts_above_max:
  "cmc_check a (face\<lparr>convertedManaCost := Some 0\<rparr>) = Inr False
   \<and> Mana_cost_range
       \<in> category ` set (build_criteria (no_args\<lparr>cmc_min := Some 1, cmc_max := Some 0\<rparr>))
   \<and> cmc_check (no_args\<lparr>cmc_min := Some 1, cmc_max := Some 0\<rparr>)
        (bear\<lparr>convertedManaCost := Some 5\<rparr>) = Inr True"
  by (simp add: eval_defs)

text \<open>
  Claim C3: the criterion set holds exactly one predicate for each category that is
  present and none for an absent one; for the three ranges, giving either bound, 0
  included, makes the predicate present.

  One predicate per true guard holds (lemma \<open>build_criteria_one_per_guard\<close>), but
  the guards of lines 35, 48 and 73 test truth values, and a bound given as 0 is
  false: \<^verbatim>\<open>--power-max 0\<close> alone, \<^verbatim>\<open>--tough-min 0\<close> alone, or both mana-cost bounds
  given as 0, build no predicate at all.
\<close>

theorem zero_bound_builds_no_predicate:
  "build_criteria (no_args\<lparr>power_max := Some 0\<rparr>) = []
   \<and> build_criteria (no_args\<lparr>tough_min := Some 0\<rparr>) = []
   \<and> build_criteria (no_args\<lparr>cmc_min := Some 0, cmc_max := Some 0\<rparr>) = []
   \<and> criteria (from_args (no_args\<lparr>power_max := Some 0\<rparr>)) = None"
  by (simp add: eval_defs)

text \<open>
  Claim C4: an active power (toughness) predicate accepts a face iff the field is
  present, is a numeric string and its integer value lies in [min if given else 0,
  max if given else 9999]; it rejects every absent or non-numeric field.

  Absent and non-numeric fields are rejected (lemma \<open>range_check_not_numeric\<close>),
  and what is accepted is given by lemma \<open>range_check_accepts\<close>. The upper bound is
  not the claim's when the maximum is given as 0: lines 39 and 43 (52 and 56) take
  9999 for it. With \<^verbatim>\<open>--power-min 2 --power-max 0\<close> a face of power 7 is accepted,
  and likewise for toughness.
\<close>

theorem power_max_zero_accepts_above_max:
  "Power_range
     \<in> category ` set (build_criteria (no_args\<lparr>power_min := Some 2, power_max := Some 0\<rparr>))
   \<and> power_check (no_args\<lparr>power_min := Some 2, power_max := Some 0\<rparr>)
        (bear\<lparr>power_fld := Some ''7''\<rparr>) = Inr True
   \<and> Toughness_range
       \<in> category ` set (build_criteria (no_args\<lparr>tough_min := Some 2, tough_max := Some 0\<rparr>))
   \<and> toughness_check (no_args\<lparr>tough_min := Some 2, tough_max := Some 0\<rparr>)
        (bear\<lparr>toughness := Some ''7''\<rparr>) = Inr True"
  by (simp add: eval_defs)

text \<open>
  Claim C5: for every card, \<^verbatim>\<open>matches(faces)\<close> is true iff at least one face of the
  sequence satisfies \<^verbatim>\<open>match\<close>; on an empty sequence it is false.

  For every filter and every sequence of faces: on the empty sequence \<^verbatim>\<open>matches\<close>
  returns False; it returns True only if \<^verbatim>\<open>match\<close> returns True on some face; and
  when \<^verbatim>\<open>match\<close> returns on every face, \<^verbatim>\<open>matches\<close> returns, and its value is
  whether \<^verbatim>\<open>match\<close> returns True on some face. (When \<^verbatim>\<open>match\<close> raises on a face the
  loop reaches, so does \<^verbatim>\<open>matches\<close>: the program catches nothing.)
\<close>

theorem matches_iff_some_face_matches:
  "matches self [] = Inr False
   \<and> (matches self faces = Inr True \<longrightarrow> (\<exists>f \<in> set faces. match self f = Inr True))
   \<and> (list_all (\<lambda>f. returns (match self f)) faces \<longrightarrow>
        matches self faces = Inr (\<exists>f \<in> set faces. match self f = Inr True))"
  using matches_True_D [of self faces] matches_no_raise [of self faces] by simp

theorem matches_iff_some_face_matches_witness:
  "list_all (\<lambda>f. returns (match (from_args (no_args\<lparr>types_all := Some [''Land'']\<rparr>)) f))
     [bear, forest]
   \<and> matches (from_args (no_args\<lparr>types_all := Some [''Land'']\<rparr>)) [bear, forest] = Inr True
   \<and> (\<exists>f \<in> set [bear, forest].
         match (from_args (no_args\<lparr>types_all := Some [''Land'']\<rparr>)) f = Inr True)
   \<and> matches (from_args (no_args\<lparr>types_all := Some [''Land'']\<rparr>)) [] = Inr False"
  using matches_iff_some_face_matches
    [of "from_args (no_args\<lparr>types_all := Some [''Land'']\<rparr>)" "[bear, forest]"]
  by (simp add: eval_defs)

text \<open>
  Claim C6: \<^verbatim>\<open>filter\<close> returns exactly the sub-mapping of the entries whose faces
  satisfy \<^verbatim>\<open>matches\<close>, in the order of the input, each name bound to its original
  face sequence; nothing is sorted.

  The card mapping is a dict, so its keys are distinct. When \<^verbatim>\<open>matches\<close> returns on
  every entry, \<^verbatim>\<open>filter\<close> returns, and the result is the list of the entries on
  which \<^verbatim>\<open>matches\<close> is True, as \<open>filter\<close> on lists selects them: same order, same
  pairs. (When \<^verbatim>\<open>matches\<close> raises on an entry so does \<^verbatim>\<open>filter\<close>, lemma
  \<open>filter_loop_raises\<close>.)
\<close>

theorem filter_returns_matching_entries_in_order:
  assumes "distinct (map fst card_dict)"
    and "list_all (\<lambda>(name, faces). returns (matches self faces)) card_dict"
  shows "filter_cards self card_dict =
     Inr (filter (\<lambda>(name, faces). matches self faces = Inr True) card_dict)"
  using filter_loop_no_raise [of card_dict "[]" self] assms by (simp add: filter_cards_def)

theorem filter_returns_matching_entries_in_order_witness:
  "distinct (map fst [(''Forest'', [forest]), (''Bear'', [bear]), (''Both'', [forest, bear])])
   \<and> list_all
       (\<lambda>(name, faces).
          returns (matches (from_args (no_args\<lparr>types_all := Some [''Land'']\<rparr>)) faces))
       [(''Forest'', [forest]), (''Bear'', [bear]), (''Both'', [forest, bear])]
   \<and> filter_cards (from_args (no_args\<lparr>types_all := Some [''Land'']\<rparr>))
        [(''Forest'', [forest]), (''Bear'', [bear]), (''Both'', [forest, bear])]
      = Inr [(''Forest'', [forest]), (''Both'', [forest, bear])]"
  using filter_returns_matching_entries_in_order
    [of "[(''Forest'', [forest]), (''Bear'', [bear]), (''Both'', [forest, bear])]"
        "from_args (no_args\<lparr>types_all := Some [''Land'']\<rparr>)"]
  by (simp add: eval_defs)

text \<open>
  Claim C7: an active required-colours predicate with set R accepts a face iff R is
  a subset of the colours of the face; so it is antitone in R: what a larger set
  accepts, R accepts.

  When \<^verbatim>\<open>--colors-all\<close> has the non-empty value R, \<^verbatim>\<open>from_args\<close> appends the lambda of
  line 25; it returns True exactly on the faces that have a \<^verbatim>\<open>colors\<close> key whose
  set includes R; and a face accepted for any R' that includes R is accepted for R.
\<close>

theorem required_colors_subset_antitone:
  assumes "colors_all a = Some R" and "R \<noteq> []"
  shows "(\<exists>c \<in> set (build_criteria a). category c = Required_colors \<and> call c = lambda_colors_all a)
    \<and> (lambda_colors_all a face = Inr True \<longleftrightarrow> (\<exists>cs. colors face = Some cs \<and> set R \<subseteq> set cs))
    \<and> (\<forall>a' R'. colors_all a' = Some R' \<and> set R \<subseteq> set R' \<and> lambda_colors_all a' face = Inr True
          \<longrightarrow> lambda_colors_all a face = Inr True)"
  using assms
  by (auto simp: build_criteria_def truthy_list_def lambda_colors_all_def split: option.splits)

theorem required_colors_subset_antitone_witness:
  "colors_all (no_args\<lparr>colors_all := Some [''R'']\<rparr>) = Some [''R''] \<and> [''R''] \<noteq> []
   \<and> lambda_colors_all (no_args\<lparr>colors_all := Some [''R'']\<rparr>) bear = Inr True
   \<and> lambda_colors_all (no_args\<lparr>colors_all := Some [''R'', ''G'']\<rparr>) bear = Inr True
   \<and> lambda_colors_all (no_args\<lparr>colors_all := Some [''R'']\<rparr>) forest = Inr False
   \<and> match (from_args (no_args\<lparr>colors_all := Some [''R'']\<rparr>)) bear = Inr True"
  using required_colors_subset_antitone
    [of "no_args\<lparr>colors_all := Some [''R'']\<rparr>" "[''R'']" bear]
  by (simp add: eval_defs)

text \<open>
  Claim C8: \<^verbatim>\<open>filter\<close>, \<^verbatim>\<open>matches\<close> and \<^verbatim>\<open>match\<close> are pure: they leave the card
  mapping, the face records and the criterion set unchanged, the output refers to
  the same face data, and the result is a function of the inputs alone.

  On the heap, for every heap and every three references: after each of the three
  methods the objects that were there before the call are all there unchanged, so
  the input dict, the lists, the faces, the \<^verbatim>\<open>CardFilter\<close>, its list of criteria,
  the function objects and what they captured. What a method adds lies behind
  them: the sets the criteria build and, for \<^verbatim>\<open>filter\<close>, the result. When
  \<^verbatim>\<open>filter\<close> returns, its result is the reference of a new dict, and every item of
  that dict is an item of the input dict: the name with the reference of the same
  list of faces. (What the methods return is what the methods on values return,
  lemmas \<open>match_h_value\<close>, \<open>matches_h_value\<close> and \<open>filter_h_value\<close>.)
\<close>

theorem matcher_writes_only_fresh_objects:
  "take (length h) (snd (match_h self face h)) = h
   \<and> take (length h) (snd (matches_h self faces h)) = h
   \<and> take (length h) (snd (filter_h self card_dict h)) = h
   \<and> (case fst (filter_h self card_dict h) of
        Inl e \<Rightarrow> True
      | Inr out \<Rightarrow> out = length h
          \<and> (\<exists>items res. get_dict h card_dict = Some items
                \<and> get_dict (snd (filter_h self card_dict h)) out = Some res
                \<and> set res \<subseteq> set items))"
proof -
  have 1: "take (length h) (snd (match_h self face h)) = h"
    using match_h_appends [of self face h] by auto
  have 2: "take (length h) (snd (matches_h self faces h)) = h"
    using matches_h_appends [of self faces h] by auto
  have 3: "take (length h) (snd (filter_h self card_dict h)) = h
     \<and> (case fst (filter_h self card_dict h) of
          Inl e \<Rightarrow> True
        | Inr out \<Rightarrow> out = length h
            \<and> (\<exists>items res. get_dict h card_dict = Some items
                  \<and> get_dict (snd (filter_h self card_dict h)) out = Some res
                  \<and> set res \<subseteq> set items))"
  proof (cases "get_dict h card_dict")
    case None
    then show ?thesis by (simp add: filter_h_def)
  next
    case (Some items)
    have new: "get_dict (h @ [Dict_obj []]) (length h) = Some []"
      by (simp add: get_dict_def)
    from filter_loop_h_frame [of "length h" "length h" "h @ [Dict_obj []]" "[]" "set items"
        items self, OF _ new]
    show ?thesis using Some by (auto simp: filter_h_def alloc_def split: sum.splits)
  qed
  from 1 2 3 show ?thesis by simp
qed

theorem matcher_writes_only_fresh_objects_witness:
  "take (length heap0) (snd (filter_h 9 5 heap0)) = heap0
   \<and> fst (filter_h 9 5 heap0) = Inr 10
   \<and> get_dict (snd (filter_h 9 5 heap0)) 10 = Some [(''Forest'', 2), (''Both'', 4)]
   \<and> get_dict heap0 5 = Some [(''Forest'', 2), (''Bear'', 3), (''Both'', 4)]
   \<and> length (snd (filter_h 9 5 heap0)) = 14"
  using matcher_writes_only_fresh_objects [of heap0 9 0 2 5]
  by (simp add: filter_h_heap0) (simp add: heap0_def get_dict_def)

text \<open>
  Claim C9: under an active power (toughness) range, a face whose power (toughness)
  string has a character that is not a numeric digit, such as "-1", "1.5", "*" or
  "2+*", is rejected, also when its value would lie in the range: negative and
  fractional values never satisfy the range.

  For every command line and every face: if the string holds a character that
  \<^verbatim>\<open>isnumeric\<close> does not count as numeric, the check returns False.
\<close>

theorem non_numeric_character_rejected:
  assumes "\<exists>c \<in> set s. \<not> isnumeric_char c"
  shows "(power_fld face = Some s \<longrightarrow> power_check a face = Inr False)
       \<and> (toughness face = Some s \<longrightarrow> toughness_check a face = Inr False)"
proof -
  have "\<not> isnumeric s" using assms by (auto simp: isnumeric_def list_all_iff)
  then show ?thesis
    by (simp add: power_check_def toughness_check_def range_check_not_numeric)
qed

theorem non_numeric_character_rejected_witness:
  "(\<exists>c \<in> set ''-1''. \<not> isnumeric_char c)
   \<and> (\<exists>c \<in> set ''1.5''. \<not> isnumeric_char c)
   \<and> (\<exists>c \<in> set ''*''. \<not> isnumeric_char c)
   \<and> (\<exists>c \<in> set ''2+*''. \<not> isnumeric_char c)
   \<and> power_check (no_args\<lparr>power_min := Some (- 5), power_max := Some 5\<rparr>)
        (bear\<lparr>power_fld := Some ''-1''\<rparr>) = Inr False
   \<and> toughness_check (no_args\<lparr>tough_min := Some (- 5), tough_max := Some 5\<rparr>)
        (bear\<lparr>toughness := Some ''-1''\<rparr>) = Inr False
   \<and> power_check (no_args\<lparr>power_min := Some 1, power_max := Some 2\<rparr>)
        (bear\<lparr>power_fld := Some ''1.5''\<rparr>) = Inr False
   \<and> power_check (no_args\<lparr>power_min := Some 1\<rparr>) (bear\<lparr>power_fld := Some ''*''\<rparr>) = Inr False
   \<and> toughness_check (no_args\<lparr>tough_min := Some 1\<rparr>) (bear\<lparr>toughness := Some ''2+*''\<rparr>)
       = Inr False"
  using
    non_numeric_character_rejected
      [of "''-1''" "bear\<lparr>power_fld := Some ''-1''\<rparr>"
          "no_args\<lparr>power_min := Some (- 5), power_max := Some 5\<rparr>"]
    non_numeric_character_rejected
      [of "''-1''" "bear\<lparr>toughness := Some ''-1''\<rparr>"
          "no_args\<lparr>tough_min := Some (- 5), tough_max := Some 5\<rparr>"]
    non_numeric_character_rejected
      [of "''1.5''" "bear\<lparr>power_fld := Some ''1.5''\<rparr>"
          "no_args\<lparr>power_min := Some 1, power_max := Some 2\<rparr>"]
    non_numeric_character_rejected
      [of "''*''" "bear\<lparr>power_fld := Some ''*''\<rparr>" "no_args\<lparr>power_min := Some 1\<rparr>"]
    non_numeric_character_rejected
      [of "''2+*''" "bear\<lparr>toughness := Some ''2+*''\<rparr>" "no_args\<lparr>tough_min := Some 1\<rparr>"]
  by (simp add: isnumeric_char_def is_decimal_char_def bear_def)


end
